theory Spec2Isabelle
  imports Main "HOL-Library.Word"
begin

section \<open>The denoising filter of StreamFX: provider lifecycle\<close>

text \<open>
  Shallow embedding of \<^verbatim>\<open>source/filters/filter-denoising.cpp\<close>, in the configuration
  where \<^verbatim>\<open>ENABLE_FILTER_DENOISING_NVIDIA\<close> is defined and \<^verbatim>\<open>ENABLE_PROFILING\<close> is not.
  Member fields \<^verbatim>\<open>_name\<close> of the source are written \<open>m_name\<close>. Calls into OBS, the
  graphics subsystem and the NVIDIA backend are external: what they return is an argument
  of the operation that makes the call, and the calls an operation makes are listed in
  the trace it returns.
\<close>

subsection \<open>Provider identities and exceptions\<close>

datatype denoising_provider = INVALID | AUTOMATIC | NVIDIA_DENOISING

text \<open>What a C++ callee can throw: something derived from \<^verbatim>\<open>std::exception\<close>
  (with its \<^verbatim>\<open>what()\<close>), or anything else, which only \<^verbatim>\<open>catch (...)\<close> catches.\<close>

datatype cpp_exception = StdException string | UnknownException

text \<open>The lines the file writes to the log, one constructor for each format string.\<close>

datatype log_entry =
    Info_is_switching denoising_provider denoising_provider
  | Info_switched denoising_provider denoising_provider
  | Error_failed_switching string
  | Error_no_result denoising_provider
  | Warning_nvidia_failed string
  | Warning_nvidia_failed_unknown
  | Error_all_providers_failed
  | Error_initialize_failed string
  | Error_initialize_failed_unknown

subsection \<open>Factory\<close>

definition provider_priority :: "denoising_provider list" where
  "provider_priority = [NVIDIA_DENOISING]"

text \<open>\<open>is_registered\<close> records whether the constructor reached \<^verbatim>\<open>finish_setup()\<close>,
  the call that registers the filter type with the host.\<close>

record denoising_factory =
  nvidia_available :: bool
  is_registered :: bool

text \<open>The outcome of loading the CUDA, CVImage and Video Effects libraries in the
  constructor.\<close>

datatype probe_outcome = ProbeLoaded | ProbeThrows cpp_exception

definition denoising_factory_ctor :: "probe_outcome \<Rightarrow> denoising_factory \<times> log_entry list" where
  "denoising_factory_ctor probe =
     (let (avail, lg) =
            (case probe of
               ProbeLoaded \<Rightarrow> (True, [])
             | ProbeThrows (StdException what) \<Rightarrow> (False, [Warning_nvidia_failed what])
             | ProbeThrows UnknownException \<Rightarrow> (False, [Warning_nvidia_failed_unknown]));
          any_available = avail
      in if \<not> any_available
         then (\<lparr>nvidia_available = avail, is_registered = False\<rparr>,
               lg @ [Error_all_providers_failed])
         else (\<lparr>nvidia_available = avail, is_registered = True\<rparr>, lg))"

fun is_provider_available :: "denoising_factory \<Rightarrow> denoising_provider \<Rightarrow> bool" where
  "is_provider_available f NVIDIA_DENOISING = nvidia_available f"
| "is_provider_available f _ = False"

text \<open>The \<^verbatim>\<open>for (auto v : provider_priority)\<close> loop of \<^verbatim>\<open>find_ideal_provider\<close>, on the
  part of the array still to visit.\<close>

fun find_ideal_provider_loop :: "denoising_factory \<Rightarrow> denoising_provider list \<Rightarrow> denoising_provider" where
  "find_ideal_provider_loop f [] = AUTOMATIC"
| "find_ideal_provider_loop f (v # vs) =
     (if is_provider_available f v then v else find_ideal_provider_loop f vs)"

definition find_ideal_provider :: "denoising_factory \<Rightarrow> denoising_provider" where
  "find_ideal_provider f = find_ideal_provider_loop f provider_priority"

text \<open>The process-wide \<^verbatim>\<open>_video_denoising_factory_instance\<close>: a shared pointer, null
  (\<open>None\<close>) at program start.\<close>

type_synonym factory_handle = "denoising_factory option"

definition initial_factory_instance :: factory_handle where
  "initial_factory_instance = None"

text \<open>\<^verbatim>\<open>initialize()\<close>. \<open>alloc\<close> is what \<^verbatim>\<open>std::make_shared<denoising_factory>()\<close> throws,
  if it throws (the constructor catches the probe's exceptions itself); both handlers of
  the function-try-block log and return.\<close>

definition initialize :: "cpp_exception option \<Rightarrow> probe_outcome \<Rightarrow> factory_handle
    \<Rightarrow> factory_handle \<times> log_entry list" where
  "initialize alloc probe g =
     (if g = None then
        (case alloc of
           None \<Rightarrow> (Some (fst (denoising_factory_ctor probe)), snd (denoising_factory_ctor probe))
         | Some (StdException what) \<Rightarrow> (g, [Error_initialize_failed what])
         | Some UnknownException \<Rightarrow> (g, [Error_initialize_failed_unknown]))
      else (g, []))"

definition finalize :: "factory_handle \<Rightarrow> factory_handle" where
  "finalize g = None"

definition get :: "factory_handle \<Rightarrow> factory_handle" where
  "get g = g"

subsection \<open>Instance state\<close>

type_synonym size_pair = "32 word \<times> 32 word"

text \<open>Surfaces are opaque: the texture of the input render target, or one the backend
  produced.\<close>

datatype texture = RenderTargetTexture | ProcessedTexture nat

text \<open>Modelled from the spec: the Frame Buffer (\<^verbatim>\<open>gs::rendertarget\<close>, not in this file) owns
  the input staging surface from its construction on and is size-mutable; \<open>get_texture\<close>
  hands that surface out, so the handle it returns is never null.\<close>

record rendertarget =
  rt_size :: size_pair

definition rendertarget_render :: "32 word \<Rightarrow> 32 word \<Rightarrow> rendertarget \<Rightarrow> rendertarget" where
  "rendertarget_render w h rt = rt\<lparr>rt_size := (w, h)\<rparr>"

definition get_texture :: "rendertarget \<Rightarrow> texture" where
  "get_texture rt = RenderTargetTexture"

text \<open>The backend object \<^verbatim>\<open>nvidia::vfx::denoising\<close> behind \<^verbatim>\<open>_nvidia_fx\<close>. Its strength is
  the float 0.0 or 1.0, kept as the integer 0 or 1.\<close>

record nvidia_fx =
  fx_strength :: int

record denoising_instance =
  m_size :: size_pair
  m_provider_ready :: bool
  m_provider :: denoising_provider
  m_provider_ui :: denoising_provider
  m_provider_task :: "nat option"
  m_input :: rendertarget
  m_output :: "texture option"
  m_dirty :: bool
  m_nvidia_fx :: "nvidia_fx option"

text \<open>External calls an operation makes, in order. The calls that only set graphics
  state around a capture (clear, blend, matrix) are left out.\<close>

datatype effect =
    Log log_entry
  | SkipVideoFilter
  | ProcessFilterBegin bool
  | InputRender "32 word" "32 word"
  | ProcessFilterEnd "32 word" "32 word"
  | FxSize
  | FxProcess
  | FxSetStrength int
  | DrawSprite texture "32 word" "32 word"

text \<open>How a function ends: it returns, an exception leaves it, or it dereferences a null
  pointer.\<close>

datatype flow = Returned | Escaped cpp_exception | NullDereference

text \<open>What the settings object holds under \<^verbatim>\<open>ST_KEY_PROVIDER\<close> (already cast to the
  enumeration) and under \<^verbatim>\<open>ST_KEY_NVIDIA_DENOISING_STRENGTH\<close>.\<close>

record config =
  cfg_provider :: denoising_provider
  cfg_strength :: int

subsection \<open>Worker pool\<close>

record switch_provider_data_t =
  provider :: denoising_provider

record task =
  task_handle :: nat
  task_data :: switch_provider_data_t

text \<open>Modelled from the spec: the worker pool (\<^verbatim>\<open>util::threadpool\<close>, not in this file).
  \<open>push\<close> submits a closure with its data and returns a fresh task handle; \<open>pop\<close> cancels
  the task if it is still queued and does nothing to a task a worker has already
  started.\<close>

record threadpool =
  queued :: "task list"
  running :: "task list"
  next_handle :: nat

definition threadpool_push :: "switch_provider_data_t \<Rightarrow> threadpool \<Rightarrow> nat \<times> threadpool" where
  "threadpool_push spd tp =
     (next_handle tp,
      tp\<lparr>queued := queued tp @ [\<lparr>task_handle = next_handle tp, task_data = spd\<rparr>],
         next_handle := Suc (next_handle tp)\<rparr>)"

definition threadpool_pop :: "nat \<Rightarrow> threadpool \<Rightarrow> threadpool" where
  "threadpool_pop h tp = tp\<lparr>queued := filter (\<lambda>t. task_handle t \<noteq> h) (queued tp)\<rparr>"

definition empty_threadpool :: threadpool where
  "empty_threadpool = \<lparr>queued = [], running = [], next_handle = 0\<rparr>"

subsection \<open>External answers and the state of the whole\<close>

text \<open>What a call of the backend's process does: it returns a surface or none, or it
  throws.\<close>

datatype process_outcome = ProcessReturns "texture option" | ProcessThrows cpp_exception

text \<open>What OBS and the backend answer during one \<^verbatim>\<open>video_render\<close>: whether the parent
  and the target exist, the target's base size, the results of the two calls of
  \<^verbatim>\<open>obs_source_process_filter_begin\<close>, and what the backend does when asked for its size
  and, up to twice, to process.\<close>

record render_env =
  r_parent :: bool
  r_target :: bool
  r_width :: "32 word"
  r_height :: "32 word"
  r_begin1 :: bool
  r_begin2 :: bool
  r_resize :: "size_pair \<Rightarrow> size_pair"
  r_process1 :: process_outcome
  r_process2 :: process_outcome

text \<open>Where the render thread stands in \<^verbatim>\<open>video_render\<close>: outside it, past the
  entry checks, past the first \<^verbatim>\<open>if (_dirty)\<close> block, or past the second. What OBS and the
  backend answer during this render travels with it.\<close>

datatype render_pc = Idle | PastGate render_env | PastFirst render_env | PastSecond

text \<open>One filter instance, the pool its switch tasks are submitted to, and the position
  of the render thread.\<close>

record world =
  inst :: denoising_instance
  pool :: threadpool
  rendering :: render_pc

subsection \<open>The NVIDIA backend shim\<close>

datatype load_outcome = LoadCreated nvidia_fx | LoadThrows cpp_exception

definition nvvfx_denoising_load :: "load_outcome \<Rightarrow> denoising_instance
    \<Rightarrow> denoising_instance \<times> flow" where
  "nvvfx_denoising_load lo s =
     (case lo of
        LoadCreated fx \<Rightarrow> (s\<lparr>m_nvidia_fx := Some fx\<rparr>, Returned)
      | LoadThrows e \<Rightarrow> (s, Escaped e))"

definition nvvfx_denoising_unload :: "denoising_instance \<Rightarrow> denoising_instance" where
  "nvvfx_denoising_unload s = s\<lparr>m_nvidia_fx := None\<rparr>"

definition nvvfx_denoising_size :: "(size_pair \<Rightarrow> size_pair) \<Rightarrow> denoising_instance
    \<Rightarrow> denoising_instance \<times> effect list" where
  "nvvfx_denoising_size resize s =
     (case m_nvidia_fx s of
        None \<Rightarrow> (s, [])
      | Some fx \<Rightarrow> (s\<lparr>m_size := resize (m_size s)\<rparr>, [FxSize]))"

definition nvvfx_denoising_process :: "process_outcome \<Rightarrow> denoising_instance
    \<Rightarrow> denoising_instance \<times> effect list \<times> flow" where
  "nvvfx_denoising_process po s =
     (case m_nvidia_fx s of
        None \<Rightarrow> (s\<lparr>m_output := Some (get_texture (m_input s))\<rparr>, [], Returned)
      | Some fx \<Rightarrow>
          (case po of
             ProcessReturns t \<Rightarrow> (s\<lparr>m_output := t\<rparr>, [FxProcess], Returned)
           | ProcessThrows e \<Rightarrow> (s, [FxProcess], Escaped e)))"

definition nvvfx_denoising_update :: "config \<Rightarrow> denoising_instance
    \<Rightarrow> denoising_instance \<times> effect list" where
  "nvvfx_denoising_update data s =
     (case m_nvidia_fx s of
        None \<Rightarrow> (s, [])
      | Some fx \<Rightarrow>
          (let v = (if cfg_strength data = 0 then 0 else 1)
           in (s\<lparr>m_nvidia_fx := Some (fx\<lparr>fx_strength := v\<rparr>)\<rparr>, [FxSetStrength v])))"

subsection \<open>Switching the provider\<close>

definition switch_provider :: "denoising_provider \<Rightarrow> world \<Rightarrow> world \<times> effect list" where
  "switch_provider p w =
     (if p = m_provider (inst w) then (w, [])
      else
        (let old = m_provider (inst w);
             pool1 = (case m_provider_task (inst w) of
                        Some h \<Rightarrow> threadpool_pop h (pool w)
                      | None \<Rightarrow> pool w);
             spd = \<lparr>provider = old\<rparr>;
             pushed = threadpool_push spd pool1
         in (w\<lparr>inst := (inst w)\<lparr>m_provider := p, m_provider_task := Some (fst pushed)\<rparr>,
              pool := snd pushed\<rparr>,
             [Log (Info_is_switching old p)])))"

text \<open>\<^verbatim>\<open>task_switch_provider\<close> in its two parts: step 1, which runs before the task takes
  the provider lock, and the rest, which runs under the lock.\<close>

definition task_switch_provider_mark :: "denoising_instance \<Rightarrow> denoising_instance" where
  "task_switch_provider_mark s = s\<lparr>m_provider_ready := False\<rparr>"

definition task_switch_provider_locked :: "switch_provider_data_t \<Rightarrow> load_outcome
    \<Rightarrow> denoising_instance \<Rightarrow> denoising_instance \<times> effect list \<times> flow" where
  "task_switch_provider_locked spd lo s =
     (let s1 = (case provider spd of
                  NVIDIA_DENOISING \<Rightarrow> nvvfx_denoising_unload s
                | _ \<Rightarrow> s);
          loaded = (case m_provider s1 of
                      NVIDIA_DENOISING \<Rightarrow> nvvfx_denoising_load lo s1
                    | _ \<Rightarrow> (s1, Returned))
      in case snd loaded of
           Returned \<Rightarrow>
             ((fst loaded)\<lparr>m_provider_ready := True\<rparr>,
              [Log (Info_switched (provider spd) (m_provider (fst loaded)))], Returned)
         | Escaped (StdException what) \<Rightarrow>
             (fst loaded, [Log (Error_failed_switching what)], Returned)
         | Escaped UnknownException \<Rightarrow> (fst loaded, [], Escaped UnknownException)
         | NullDereference \<Rightarrow> (fst loaded, [], NullDereference))"

definition task_switch_provider :: "switch_provider_data_t \<Rightarrow> load_outcome
    \<Rightarrow> denoising_instance \<Rightarrow> denoising_instance \<times> effect list \<times> flow" where
  "task_switch_provider spd lo s =
     task_switch_provider_locked spd lo (task_switch_provider_mark s)"

subsection \<open>Update, tick and render\<close>

definition update :: "factory_handle \<Rightarrow> config \<Rightarrow> world \<Rightarrow> world \<times> effect list \<times> flow" where
  "update g data w =
     (case (if cfg_provider data = AUTOMATIC
            then (case get g of None \<Rightarrow> None | Some f \<Rightarrow> Some (find_ideal_provider f))
            else Some (cfg_provider data)) of
        None \<Rightarrow> (w, [], NullDereference)
      | Some p \<Rightarrow>
          (let switched = (if p \<noteq> m_provider (inst w)
                           then switch_provider p (w\<lparr>inst := (inst w)\<lparr>m_provider_ui := p\<rparr>\<rparr>)
                           else (w, []));
               w1 = fst switched;
               updated = (if m_provider_ready (inst w1)
                          then (case m_provider (inst w1) of
                                  NVIDIA_DENOISING \<Rightarrow> nvvfx_denoising_update data (inst w1)
                                | _ \<Rightarrow> (inst w1, []))
                          else (inst w1, []))
           in (w1\<lparr>inst := fst updated\<rparr>, snd switched @ snd updated, Returned)))"

definition load :: "factory_handle \<Rightarrow> config \<Rightarrow> world \<Rightarrow> world \<times> effect list \<times> flow" where
  "load g data w = update g data w"

text \<open>The constructor's initialiser list and body up to the call of \<open>load\<close>. It gives
  \<^verbatim>\<open>_provider_ui\<close> and \<^verbatim>\<open>_dirty\<close> no value, so whatever they hold is an argument.\<close>

definition new_instance :: "denoising_provider \<Rightarrow> bool \<Rightarrow> denoising_instance" where
  "new_instance ui0 dirty0 =
     (let input = rendertarget_render 1 1 \<lparr>rt_size = (0, 0)\<rparr>
      in \<lparr>m_size = (1, 1), m_provider_ready = False, m_provider = INVALID,
          m_provider_ui = ui0, m_provider_task = None, m_input = input,
          m_output = Some (get_texture input), m_dirty = dirty0, m_nvidia_fx = None\<rparr>)"

definition denoising_instance_ctor :: "factory_handle \<Rightarrow> config option \<Rightarrow> denoising_provider
    \<Rightarrow> bool \<Rightarrow> threadpool \<Rightarrow> world \<times> effect list \<times> flow" where
  "denoising_instance_ctor g data ui0 dirty0 tp =
     (let w = \<lparr>inst = new_instance ui0 dirty0, pool = tp, rendering = Idle\<rparr>
      in case data of None \<Rightarrow> (w, [], Returned) | Some d \<Rightarrow> load g d w)"

definition get_width :: "denoising_instance \<Rightarrow> 32 word" where
  "get_width s = max (fst (m_size s)) 1"

definition get_height :: "denoising_instance \<Rightarrow> 32 word" where
  "get_height s = max (snd (m_size s)) 1"

text \<open>What OBS and the backend answer during one \<^verbatim>\<open>video_tick\<close>.\<close>

record tick_env =
  t_target :: bool
  t_width :: "32 word"
  t_height :: "32 word"
  t_resize :: "size_pair \<Rightarrow> size_pair"

definition video_tick :: "tick_env \<Rightarrow> denoising_instance \<Rightarrow> denoising_instance \<times> effect list" where
  "video_tick env s =
     (let s1 = s\<lparr>m_size := (t_width env, t_height env)\<rparr>;
          sized = (if t_target env \<and> m_provider_ready s1
                   then (case m_provider s1 of
                           NVIDIA_DENOISING \<Rightarrow> nvvfx_denoising_size (t_resize env) s1
                         | _ \<Rightarrow> (s1, []))
                   else (s1, []))
      in ((fst sized)\<lparr>m_dirty := True\<rparr>, snd sized))"

text \<open>The first \<^verbatim>\<open>if (_dirty)\<close> block, entered with \<^verbatim>\<open>_dirty\<close> set. The last component is
  \<open>None\<close> when control falls out of the block, and how \<^verbatim>\<open>video_render\<close> ended otherwise.
  The call of process in this block is not inside a \<^verbatim>\<open>try\<close>.\<close>

definition video_render_first :: "render_env \<Rightarrow> denoising_instance
    \<Rightarrow> denoising_instance \<times> effect list \<times> flow option" where
  "video_render_first env s =
     (let width = r_width env; height = r_height env;
          sized = (case m_provider s of
                     NVIDIA_DENOISING \<Rightarrow> nvvfx_denoising_size (r_resize env) s
                   | _ \<Rightarrow> (s\<lparr>m_size := (width, height)\<rparr>, []))
      in if r_begin1 env then
           (let s2 = (fst sized)\<lparr>m_input := rendertarget_render width height (m_input (fst sized))\<rparr>;
                t2 = snd sized @ [ProcessFilterBegin True, InputRender width height,
                                  ProcessFilterEnd width height];
                processed = (case m_provider s2 of
                               NVIDIA_DENOISING \<Rightarrow> nvvfx_denoising_process (r_process1 env) s2
                             | _ \<Rightarrow> (s2\<lparr>m_output := None\<rparr>, [], Returned));
                s3 = fst processed; t3 = t2 @ fst (snd processed)
            in case snd (snd processed) of
                 Returned \<Rightarrow>
                   (if m_output s3 = None
                    then (s3, t3 @ [Log (Error_no_result (m_provider s3)), SkipVideoFilter],
                          Some Returned)
                    else (s3, t3, None))
               | fl \<Rightarrow> (s3, t3, Some fl))
         else (fst sized, snd sized @ [ProcessFilterBegin False, SkipVideoFilter], Some Returned))"

text \<open>The second \<^verbatim>\<open>if (_dirty)\<close> block, entered with \<^verbatim>\<open>_dirty\<close> set. Here
  \<^verbatim>\<open>catch (...)\<close> turns whatever process throws into a skip.\<close>

definition video_render_second :: "render_env \<Rightarrow> denoising_instance
    \<Rightarrow> denoising_instance \<times> effect list \<times> flow option" where
  "video_render_second env s =
     (if r_begin2 env then
        (let w = fst (m_size s); h = snd (m_size s);
             s2 = s\<lparr>m_input := rendertarget_render w h (m_input s)\<rparr>;
             t2 = [ProcessFilterBegin True, InputRender w h, ProcessFilterEnd 1 1];
             processed = (case m_provider s2 of
                            NVIDIA_DENOISING \<Rightarrow> nvvfx_denoising_process (r_process2 env) s2
                          | _ \<Rightarrow> (s2\<lparr>m_output := None\<rparr>, [], Returned));
             s3 = fst processed; t3 = t2 @ fst (snd processed)
         in case snd (snd processed) of
              Returned \<Rightarrow>
                (if m_output s3 = None
                 then (s3, t3 @ [Log (Error_no_result (m_provider s3)), SkipVideoFilter],
                       Some Returned)
                 else (s3\<lparr>m_dirty := False\<rparr>, t3, None))
            | fl \<Rightarrow> (s3, t3 @ [SkipVideoFilter], Some Returned))
      else (s, [ProcessFilterBegin False, SkipVideoFilter], Some Returned))"

text \<open>The final block, which draws \<^verbatim>\<open>_output\<close>.\<close>

definition video_render_draw :: "denoising_instance \<Rightarrow> denoising_instance \<times> effect list \<times> flow" where
  "video_render_draw s =
     (case m_output s of
        Some t \<Rightarrow> (s, [DrawSprite t (fst (m_size s)) (snd (m_size s))], Returned)
      | None \<Rightarrow> (s, [], NullDereference))"

definition video_render :: "render_env \<Rightarrow> denoising_instance
    \<Rightarrow> denoising_instance \<times> effect list \<times> flow" where
  "video_render env s =
     (let target = (r_target env \<or> r_parent env)
      in if \<not> m_provider_ready s \<or> \<not> target \<or> r_width env = 0 \<or> r_height env = 0
         then (s, [SkipVideoFilter], Returned)
         else
           (let p1 = (if m_dirty s then video_render_first env s else (s, [], None))
            in case snd (snd p1) of
                 Some fl \<Rightarrow> (fst p1, fst (snd p1), fl)
               | None \<Rightarrow>
                   (let p2 = (if m_dirty (fst p1) then video_render_second env (fst p1)
                              else (fst p1, [], None))
                    in case snd (snd p2) of
                         Some fl \<Rightarrow> (fst p2, fst (snd p1) @ fst (snd p2), fl)
                       | None \<Rightarrow>
                           (let p3 = video_render_draw (fst p2)
                            in (fst p3, fst (snd p1) @ fst (snd p2) @ fst (snd p3),
                                snd (snd p3))))))"

subsection \<open>Interleavings\<close>

text \<open>What can happen to one instance, one event at a time: the host calls \<open>update\<close>,
  \<open>video_tick\<close> or \<open>video_render\<close>; \<open>switch_provider\<close> is called; a worker takes a queued
  task and runs its step 1; a started task gets the provider lock and runs the rest.
  \<open>switch_provider\<close> and the locked part of a task hold the same lock, so neither runs
  inside the other. An event naming a task that is not in the state it needs changes
  nothing.

  \<open>Render env\<close> is a whole \<^verbatim>\<open>video_render\<close> that nothing interrupts. The same call is
  also there in the pieces between which the worker threads can run: \<open>RenderGate env\<close>
  reads the target and \<^verbatim>\<open>_provider_ready\<close> and either skips or goes on, without the
  lock; \<open>RenderFirst\<close> and \<open>RenderSecond\<close> are the two \<^verbatim>\<open>if (_dirty)\<close> blocks, each under
  the provider lock; \<open>RenderDraw\<close> is the final block. Step 1 of a task writes
  \<^verbatim>\<open>_provider_ready\<close> without the lock, so a \<open>TaskBegin\<close> can fall between any two of
  them. A piece that is not the next one of the render in progress changes nothing.\<close>

datatype event =
    Update config
  | Switch denoising_provider
  | TaskBegin nat
  | TaskRun nat load_outcome
  | Tick tick_env
  | Render render_env
  | RenderGate render_env
  | RenderFirst
  | RenderSecond
  | RenderDraw

text \<open>The events that call \<open>switch_provider\<close>, directly or through \<open>update\<close>.\<close>

fun is_switch_request :: "event \<Rightarrow> bool" where
  "is_switch_request (Update data) = True"
| "is_switch_request (Switch p) = True"
| "is_switch_request _ = False"

text \<open>One event: the state after it and the external calls it made.\<close>

definition step_full :: "factory_handle \<Rightarrow> event \<Rightarrow> world \<Rightarrow> world \<times> effect list" where
  "step_full g e w =
     (case e of
        Update data \<Rightarrow> (fst (update g data w), fst (snd (update g data w)))
      | Switch p \<Rightarrow> switch_provider p w
      | TaskBegin h \<Rightarrow>
          (case find (\<lambda>t. task_handle t = h) (queued (pool w)) of
             None \<Rightarrow> (w, [])
           | Some t \<Rightarrow>
               (w\<lparr>inst := task_switch_provider_mark (inst w),
                  pool := (pool w)\<lparr>queued := filter (\<lambda>t. task_handle t \<noteq> h) (queued (pool w)),
                                   running := running (pool w) @ [t]\<rparr>\<rparr>, []))
      | TaskRun h lo \<Rightarrow>
          (case find (\<lambda>t. task_handle t = h) (running (pool w)) of
             None \<Rightarrow> (w, [])
           | Some t \<Rightarrow>
               (w\<lparr>inst := fst (task_switch_provider_locked (task_data t) lo (inst w)),
                  pool := (pool w)\<lparr>running :=
                             filter (\<lambda>t. task_handle t \<noteq> h) (running (pool w))\<rparr>\<rparr>,
                fst (snd (task_switch_provider_locked (task_data t) lo (inst w)))))
      | Tick env \<Rightarrow> (w\<lparr>inst := fst (video_tick env (inst w))\<rparr>, snd (video_tick env (inst w)))
      | Render env \<Rightarrow>
          (w\<lparr>inst := fst (video_render env (inst w))\<rparr>, fst (snd (video_render env (inst w))))
      | RenderGate env \<Rightarrow>
          (case rendering w of
             Idle \<Rightarrow>
               (if \<not> m_provider_ready (inst w) \<or> \<not> (r_target env \<or> r_parent env)
                     \<or> r_width env = 0 \<or> r_height env = 0
                then (w, [SkipVideoFilter])
                else (w\<lparr>rendering := PastGate env\<rparr>, []))
           | _ \<Rightarrow> (w, []))
      | RenderFirst \<Rightarrow>
          (case rendering w of
             PastGate env \<Rightarrow>
               (let p1 = (if m_dirty (inst w) then video_render_first env (inst w)
                          else (inst w, [], None))
                in (w\<lparr>inst := fst p1,
                      rendering := (case snd (snd p1) of None \<Rightarrow> PastFirst env | Some fl \<Rightarrow> Idle)\<rparr>,
                    fst (snd p1)))
           | _ \<Rightarrow> (w, []))
      | RenderSecond \<Rightarrow>
          (case rendering w of
             PastFirst env \<Rightarrow>
               (let p2 = (if m_dirty (inst w) then video_render_second env (inst w)
                          else (inst w, [], None))
                in (w\<lparr>inst := fst p2,
                      rendering := (case snd (snd p2) of None \<Rightarrow> PastSecond | Some fl \<Rightarrow> Idle)\<rparr>,
                    fst (snd p2)))
           | _ \<Rightarrow> (w, []))
      | RenderDraw \<Rightarrow>
          (case rendering w of
             PastSecond \<Rightarrow>
               (w\<lparr>inst := fst (video_render_draw (inst w)), rendering := Idle\<rparr>,
                fst (snd (video_render_draw (inst w))))
           | _ \<Rightarrow> (w, [])))"

definition step :: "factory_handle \<Rightarrow> event \<Rightarrow> world \<Rightarrow> world" where
  "step g e w = fst (step_full g e w)"

fun exec :: "factory_handle \<Rightarrow> event list \<Rightarrow> world \<Rightarrow> world" where
  "exec g [] w = w"
| "exec g (e # es) w = exec g es (step g e w)"

fun exec_trace :: "factory_handle \<Rightarrow> event list \<Rightarrow> world \<Rightarrow> effect list" where
  "exec_trace g [] w = []"
| "exec_trace g (e # es) w = snd (step_full g e w) @ exec_trace g es (step g e w)"

subsection \<open>The program from start-up\<close>

text \<open>The factory's constructor registers the filter type with the host only when a
  provider is available: otherwise it logs and returns before \<^verbatim>\<open>finish_setup()\<close>. The
  host (OBS, not in this file) constructs instances of, and so calls \<open>update\<close>, tick and
  render on, registered filter types only. \<open>host_session\<close> is everything the program
  calls and logs in one run: the factory's start-up, then, if the type was registered,
  the construction of an instance on an empty pool and the events that follow.\<close>

definition host_session :: "probe_outcome \<Rightarrow> config option \<Rightarrow> denoising_provider \<Rightarrow> bool
    \<Rightarrow> event list \<Rightarrow> effect list" where
  "host_session probe data ui0 dirty0 es =
     (let f = fst (denoising_factory_ctor probe);
          startup = map Log (snd (denoising_factory_ctor probe))
      in if is_registered f
         then (let made = denoising_instance_ctor (Some f) data ui0 dirty0 empty_threadpool
               in startup @ fst (snd made) @ exec_trace (Some f) es (fst made))
         else startup)"

subsection \<open>Sample inputs\<close>

text \<open>A freshly constructed instance with an empty pool, a tick and a render of a
  1920 by 1080 target in which both captures succeed, and a backend that returns no
  surface or surface number 7.\<close>

definition example_world :: world where
  "example_world = \<lparr>inst = new_instance INVALID True, pool = empty_threadpool,
                     rendering = Idle\<rparr>"

definition example_tick_env :: tick_env where
  "example_tick_env = \<lparr>t_target = True, t_width = 1920, t_height = 1080, t_resize = (\<lambda>x. x)\<rparr>"

definition example_render_env :: "texture option \<Rightarrow> render_env" where
  "example_render_env out =
     \<lparr>r_parent = True, r_target = True, r_width = 1920, r_height = 1080, r_begin1 = True,
      r_begin2 = True, r_resize = (\<lambda>x. x), r_process1 = ProcessReturns out,
      r_process2 = ProcessReturns out\<rparr>"

subsection \<open>Properties of the factory\<close>

lemma find_ideal_provider_loop_first:
  "\<forall>x\<in>set xs. \<not> is_provider_available f x \<Longrightarrow> is_provider_available f v
   \<Longrightarrow> find_ideal_provider_loop f (xs @ v # ys) = v"
  by (induction xs) simp_all

lemma find_ideal_provider_loop_none:
  "\<forall>x\<in>set vs. \<not> is_provider_available f x \<Longrightarrow> find_ideal_provider_loop f vs = AUTOMATIC"
  by (induction vs) simp_all

lemma find_ideal_provider_loop_available:
  "find_ideal_provider_loop f vs \<noteq> AUTOMATIC
   \<Longrightarrow> is_provider_available f (find_ideal_provider_loop f vs)
       \<and> find_ideal_provider_loop f vs \<in> set vs"
  by (induction vs) (simp_all split: if_splits)

text \<open>
  Claim C9. \<open>find_ideal_provider\<close> returns the first identity of the priority list whose
  availability flag is true: whenever the list splits into identities that are all
  unavailable, then an available \<open>v\<close>, then a rest, the result is \<open>v\<close>. When no listed
  identity is available the result is the sentinel \<open>AUTOMATIC\<close>. A result other than the
  sentinel is a listed identity whose flag is true, so an identity whose probe failed is
  never returned.
\<close>

theorem find_ideal_provider_first_available:
  "(\<forall>xs v ys. provider_priority = xs @ v # ys \<longrightarrow> (\<forall>x\<in>set xs. \<not> is_provider_available f x)
       \<longrightarrow> is_provider_available f v \<longrightarrow> find_ideal_provider f = v)
   \<and> ((\<forall>v\<in>set provider_priority. \<not> is_provider_available f v)
       \<longrightarrow> find_ideal_provider f = AUTOMATIC)
   \<and> (find_ideal_provider f \<noteq> AUTOMATIC
       \<longrightarrow> is_provider_available f (find_ideal_provider f)
           \<and> find_ideal_provider f \<in> set provider_priority)
   \<and> (\<forall>p. \<not> is_provider_available f p \<longrightarrow> p \<noteq> AUTOMATIC \<longrightarrow> find_ideal_provider f \<noteq> p)"
proof (intro conjI allI impI)
  fix xs v ys
  assume "provider_priority = xs @ v # ys" "\<forall>x\<in>set xs. \<not> is_provider_available f x"
    "is_provider_available f v"
  then show "find_ideal_provider f = v"
    using find_ideal_provider_loop_first [of xs f v ys]
    by (simp add: find_ideal_provider_def)
next
  assume "\<forall>v\<in>set provider_priority. \<not> is_provider_available f v"
  then show "find_ideal_provider f = AUTOMATIC"
    by (simp add: find_ideal_provider_def find_ideal_provider_loop_none)
next
  assume "find_ideal_provider f \<noteq> AUTOMATIC"
  then show "is_provider_available f (find_ideal_provider f)"
    and "find_ideal_provider f \<in> set provider_priority"
    using find_ideal_provider_loop_available [of f provider_priority]
    by (simp_all add: find_ideal_provider_def)
next
  fix p
  assume "\<not> is_provider_available f p" "p \<noteq> AUTOMATIC"
  then show "find_ideal_provider f \<noteq> p"
    using find_ideal_provider_loop_available [of f provider_priority]
    by (auto simp: find_ideal_provider_def)
qed

theorem find_ideal_provider_first_available_witness:
  "find_ideal_provider \<lparr>nvidia_available = True, is_registered = True\<rparr> = NVIDIA_DENOISING
   \<and> find_ideal_provider \<lparr>nvidia_available = False, is_registered = False\<rparr> = AUTOMATIC
   \<and> find_ideal_provider \<lparr>nvidia_available = False, is_registered = False\<rparr> \<noteq> NVIDIA_DENOISING"
proof -
  let ?yes = "\<lparr>nvidia_available = True, is_registered = True\<rparr>"
  let ?no = "\<lparr>nvidia_available = False, is_registered = False\<rparr>"
  have split: "provider_priority = [] @ NVIDIA_DENOISING # []"
    by (simp add: provider_priority_def)
  have first: "\<forall>xs v ys. provider_priority = xs @ v # ys
      \<longrightarrow> (\<forall>x\<in>set xs. \<not> is_provider_available ?yes x)
      \<longrightarrow> is_provider_available ?yes v \<longrightarrow> find_ideal_provider ?yes = v"
    using find_ideal_provider_first_available [of ?yes] by (rule conjunct1)
  have "provider_priority = [] @ NVIDIA_DENOISING # []
      \<longrightarrow> (\<forall>x\<in>set []. \<not> is_provider_available ?yes x)
      \<longrightarrow> is_provider_available ?yes NVIDIA_DENOISING
      \<longrightarrow> find_ideal_provider ?yes = NVIDIA_DENOISING"
    using first by (elim allE)
  with split have "find_ideal_provider ?yes = NVIDIA_DENOISING"
    by simp
  moreover have none: "\<forall>v\<in>set provider_priority. \<not> is_provider_available ?no v"
    by (simp add: provider_priority_def)
  have "(\<forall>v\<in>set provider_priority. \<not> is_provider_available ?no v)
      \<longrightarrow> find_ideal_provider ?no = AUTOMATIC"
    using find_ideal_provider_first_available [of ?no] by (elim conjE)
  with none have "find_ideal_provider ?no = AUTOMATIC"
    by (rule mp [rotated])
  moreover from this have "find_ideal_provider ?no \<noteq> NVIDIA_DENOISING"
    by simp
  ultimately show ?thesis by simp
qed

text \<open>
  Claim C10. \<open>get\<close> returns the null handle at program start, before any \<open>initialize\<close>,
  and after \<open>finalize\<close>, whatever the handle was. A call of \<open>initialize\<close> made while an
  instance exists changes nothing and logs nothing, so \<open>get\<close> returns the same handle
  before and after it; in particular a second \<open>initialize\<close> right after a first one that
  created the instance leaves that instance in place.
\<close>

theorem factory_handle_lifecycle:
  "get initial_factory_instance = None
   \<and> get (finalize g) = None
   \<and> (g \<noteq> None \<longrightarrow> initialize alloc probe g = (g, [])
        \<and> get (fst (initialize alloc probe g)) = get g)
   \<and> (fst (initialize alloc probe g) \<noteq> None \<longrightarrow>
        get (fst (initialize alloc' probe' (fst (initialize alloc probe g))))
          = get (fst (initialize alloc probe g)))"
  by (simp add: get_def finalize_def initial_factory_instance_def initialize_def)

theorem factory_handle_lifecycle_witness:
  "get (fst (initialize None ProbeLoaded initial_factory_instance))
     = Some \<lparr>nvidia_available = True, is_registered = True\<rparr>
   \<and> get (fst (initialize None (ProbeThrows UnknownException)
        (fst (initialize None ProbeLoaded initial_factory_instance))))
     = Some \<lparr>nvidia_available = True, is_registered = True\<rparr>"
proof -
  have first: "fst (initialize None ProbeLoaded initial_factory_instance)
      = Some \<lparr>nvidia_available = True, is_registered = True\<rparr>"
    by (simp add: initialize_def initial_factory_instance_def denoising_factory_ctor_def)
  then have "fst (initialize None ProbeLoaded initial_factory_instance) \<noteq> None" by simp
  then show ?thesis
    using factory_handle_lifecycle [of initial_factory_instance None ProbeLoaded
        None "ProbeThrows UnknownException"] first
    by (simp add: get_def)
qed

section \<open>Properties of the instance\<close>

subsection \<open>What each operation leaves alone\<close>

lemma nvvfx_denoising_process_dirty [simp]:
  "m_dirty (fst (nvvfx_denoising_process po s)) = m_dirty s"
  by (simp add: nvvfx_denoising_process_def split: option.splits process_outcome.splits)

lemma nvvfx_denoising_size_dirty [simp]:
  "m_dirty (fst (nvvfx_denoising_size r s)) = m_dirty s"
  by (simp add: nvvfx_denoising_size_def split: option.splits)

lemma nvvfx_denoising_process_provider [simp]:
  "m_provider (fst (nvvfx_denoising_process po s)) = m_provider s"
  by (simp add: nvvfx_denoising_process_def split: option.splits process_outcome.splits)

lemma nvvfx_denoising_size_provider [simp]:
  "m_provider (fst (nvvfx_denoising_size r s)) = m_provider s"
  by (simp add: nvvfx_denoising_size_def split: option.splits)

lemma nvvfx_denoising_update_frame [simp]:
  "m_provider (fst (nvvfx_denoising_update d s)) = m_provider s"
  "m_dirty (fst (nvvfx_denoising_update d s)) = m_dirty s"
  by (simp_all add: nvvfx_denoising_update_def Let_def split: option.splits)

lemma nvvfx_denoising_load_frame [simp]:
  "m_provider (fst (nvvfx_denoising_load lo s)) = m_provider s"
  "m_dirty (fst (nvvfx_denoising_load lo s)) = m_dirty s"
  by (simp_all add: nvvfx_denoising_load_def split: load_outcome.splits)


lemma video_render_first_provider:
  "m_provider (fst (video_render_first env s)) = m_provider s"
  by (simp add: video_render_first_def Let_def split: denoising_provider.splits flow.splits)

lemma video_render_second_provider:
  "m_provider (fst (video_render_second env s)) = m_provider s"
  by (simp add: video_render_second_def Let_def split: denoising_provider.splits flow.splits)

lemma video_render_draw_state:
  "fst (video_render_draw s) = s"
  by (simp add: video_render_draw_def split: option.splits)

lemma video_render_draw_eq:
  "video_render_draw s = (s', t, fl) \<Longrightarrow> s' = s \<and> (fl = Returned \<longleftrightarrow> m_output s \<noteq> None)"
  by (auto simp: video_render_draw_def split: option.splits)

lemma video_render_provider:
  "m_provider (fst (video_render env s)) = m_provider s"
  by (simp add: video_render_def Let_def video_render_first_provider
      video_render_second_provider video_render_draw_state split: option.splits)

lemma video_tick_provider:
  "m_provider (fst (video_tick env s)) = m_provider s"
  by (simp add: video_tick_def Let_def split: denoising_provider.splits)


lemma task_switch_provider_mark_frame:
  "m_provider (task_switch_provider_mark s) = m_provider s"
  "m_dirty (task_switch_provider_mark s) = m_dirty s"
  by (simp_all add: task_switch_provider_mark_def)

lemma task_switch_provider_locked_frame:
  "m_provider (fst (task_switch_provider_locked spd lo s)) = m_provider s"
  "m_dirty (fst (task_switch_provider_locked spd lo s)) = m_dirty s"
  by (simp_all add: task_switch_provider_locked_def Let_def nvvfx_denoising_unload_def
      split: denoising_provider.splits flow.splits cpp_exception.splits)

lemma switch_provider_provider:
  "m_provider (inst (fst (switch_provider p w))) = p"
  by (simp add: switch_provider_def Let_def)



lemma update_provider:
  "m_provider (inst (fst (update g d w))) =
     (if cfg_provider d = AUTOMATIC
      then (case g of None \<Rightarrow> m_provider (inst w) | Some f \<Rightarrow> find_ideal_provider f)
      else cfg_provider d)"
  by (auto simp add: update_def Let_def switch_provider_provider get_def
      split: option.splits denoising_provider.splits)

lemma step_keeps_provider:
  "\<not> is_switch_request e \<Longrightarrow> m_provider (inst (step g e w)) = m_provider (inst w)"
  by (cases e)
     (simp_all add: step_def step_full_def Let_def task_switch_provider_mark_frame
        task_switch_provider_locked_frame video_tick_provider video_render_provider
        video_render_first_provider video_render_second_provider video_render_draw_state
        split: option.splits render_pc.splits)

lemma exec_append:
  "exec g (xs @ ys) w = exec g ys (exec g xs w)"
  by (induction xs arbitrary: w) simp_all

lemma exec_keeps_provider:
  "\<forall>e\<in>set es. \<not> is_switch_request e \<Longrightarrow> m_provider (inst (exec g es w)) = m_provider (inst w)"
  by (induction es arbitrary: w) (simp_all add: step_keeps_provider)

subsection \<open>The paths through render\<close>

lemma video_render_gate:
  "\<not> m_provider_ready s \<or> \<not> (r_target env \<or> r_parent env) \<or> r_width env = 0 \<or> r_height env = 0
   \<Longrightarrow> video_render env s = (s, [SkipVideoFilter], Returned)"
  by (auto simp: video_render_def)








lemma step_full_idle_pieces:
  "rendering w = Idle \<Longrightarrow> step_full g RenderFirst w = (w, [])
     \<and> step_full g RenderSecond w = (w, []) \<and> step_full g RenderDraw w = (w, [])"
  by (simp add: step_full_def)

lemma video_render_pieces:
  assumes "\<not> (\<not> m_provider_ready s \<or> \<not> (r_target env \<or> r_parent env)
      \<or> r_width env = 0 \<or> r_height env = 0)"
    and "p1 = (if m_dirty s then video_render_first env s else (s, [], None))"
    and "p2 = (if m_dirty (fst p1) then video_render_second env (fst p1)
               else (fst p1, [], None))"
  shows "video_render env s =
     (case snd (snd p1) of
        Some fl \<Rightarrow> (fst p1, fst (snd p1), fl)
      | None \<Rightarrow>
          (case snd (snd p2) of
             Some fl \<Rightarrow> (fst p2, fst (snd p1) @ fst (snd p2), fl)
           | None \<Rightarrow>
               (fst (video_render_draw (fst p2)),
                fst (snd p1) @ fst (snd p2) @ fst (snd (video_render_draw (fst p2))),
                snd (snd (video_render_draw (fst p2))))))"
  unfolding assms(2,3) using assms(1)
  by (simp add: video_render_def Let_def split: option.splits)

text \<open>
  The four pieces of a render, run one after the other from outside a render with nothing
  in between, do what the whole \<open>video_render\<close> does: the same state of the instance,
  the same external calls in the same order, and the render thread outside again.
\<close>

lemma render_pieces_make_render:
  assumes idle: "rendering w = Idle"
  shows "inst (exec g [RenderGate env, RenderFirst, RenderSecond, RenderDraw] w)
           = inst (step g (Render env) w)
         \<and> exec_trace g [RenderGate env, RenderFirst, RenderSecond, RenderDraw] w
           = snd (step_full g (Render env) w)
         \<and> rendering (exec g [RenderGate env, RenderFirst, RenderSecond, RenderDraw] w) = Idle"
proof (cases "\<not> m_provider_ready (inst w) \<or> \<not> (r_target env \<or> r_parent env)
      \<or> r_width env = 0 \<or> r_height env = 0")
  case True
  with idle have "step_full g (RenderGate env) w = (w, [SkipVideoFilter])"
    by (auto simp: step_full_def)
  with idle video_render_gate [OF True] step_full_idle_pieces [OF idle, of g]
  show ?thesis by (simp add: step_def) (simp add: step_full_def)
next
  case gate: False
  define p1 where "p1 = (if m_dirty (inst w) then video_render_first env (inst w)
      else (inst w, [], None))"
  define w1 where "w1 = w\<lparr>rendering := PastGate env\<rparr>"
  define w2 where "w2 = w1\<lparr>inst := fst p1,
      rendering := (case snd (snd p1) of None \<Rightarrow> PastFirst env | Some fl \<Rightarrow> Idle)\<rparr>"
  from idle gate have s1: "step_full g (RenderGate env) w = (w1, [])"
    by (auto simp: step_full_def w1_def)
  have s2: "step_full g RenderFirst w1 = (w2, fst (snd p1))"
    by (simp add: step_full_def w1_def w2_def p1_def Let_def)
  show ?thesis
  proof (cases "snd (snd p1)")
    case (Some fl)
    then have idle2: "rendering w2 = Idle" by (simp add: w2_def)
    from video_render_pieces [OF gate p1_def refl] Some
    have whole: "video_render env (inst w) = (fst p1, fst (snd p1), fl)"
      by simp
    from s1 s2 step_full_idle_pieces [OF idle2, of g] whole idle2 show ?thesis
      by (simp add: step_def) (simp add: step_full_def w2_def w1_def)
  next
    case None
    define p2 where "p2 = (if m_dirty (fst p1) then video_render_second env (fst p1)
        else (fst p1, [], None))"
    define w3 where "w3 = w2\<lparr>inst := fst p2,
        rendering := (case snd (snd p2) of None \<Rightarrow> PastSecond | Some fl \<Rightarrow> Idle)\<rparr>"
    from None have r2: "rendering w2 = PastFirst env" and i2: "inst w2 = fst p1"
      by (simp_all add: w2_def)
    then have s3: "step_full g RenderSecond w2 = (w3, fst (snd p2))"
      by (simp add: step_full_def w3_def p2_def Let_def)
    show ?thesis
    proof (cases "snd (snd p2)")
      case (Some fl)
      then have idle3: "rendering w3 = Idle" and i3: "inst w3 = fst p2"
        by (simp_all add: w3_def)
      from video_render_pieces [OF gate p1_def p2_def] None Some
      have whole: "video_render env (inst w) = (fst p2, fst (snd p1) @ fst (snd p2), fl)"
        by simp
      from s1 s2 s3 step_full_idle_pieces [OF idle3, of g] whole idle3 i3 show ?thesis
        by (simp add: step_def) (simp add: step_full_def)
    next
      case n2: None
      then have r3: "rendering w3 = PastSecond" and i3: "inst w3 = fst p2"
        by (simp_all add: w3_def)
      then have s4: "step_full g RenderDraw w3
          = (w3\<lparr>inst := fst (video_render_draw (fst p2)), rendering := Idle\<rparr>,
             fst (snd (video_render_draw (fst p2))))"
        by (simp add: step_full_def)
      from video_render_pieces [OF gate p1_def p2_def] None n2
      have whole: "video_render env (inst w) =
          (fst (video_render_draw (fst p2)),
           fst (snd p1) @ fst (snd p2) @ fst (snd (video_render_draw (fst p2))),
           snd (snd (video_render_draw (fst p2))))"
        by simp
      from s1 s2 s3 s4 whole show ?thesis
        by (simp add: step_def) (simp add: step_full_def)
    qed
  qed
qed

subsection \<open>Evaluating concrete runs\<close>

lemmas run_defs = example_world_def example_tick_env_def example_render_env_def step_def
  step_full_def switch_provider_def update_def new_instance_def empty_threadpool_def
  Let_def threadpool_push_def threadpool_pop_def task_switch_provider_mark_def
  task_switch_provider_locked_def task_switch_provider_def rendertarget_render_def
  get_texture_def nvvfx_denoising_unload_def nvvfx_denoising_load_def get_def
  find_ideal_provider_def provider_priority_def video_tick_def video_render_def
  video_render_first_def video_render_second_def video_render_draw_def
  nvvfx_denoising_size_def nvvfx_denoising_process_def nvvfx_denoising_update_def

text \<open>
  A run of the program with the provider available: the switch to the NVIDIA backend,
  one tick and one render that captures, processes twice and draws.
\<close>

lemma host_session_registered_example:
  "host_session ProbeLoaded (Some \<lparr>cfg_provider = AUTOMATIC, cfg_strength = 1\<rparr>) INVALID True
     [TaskBegin 0, TaskRun 0 (LoadCreated \<lparr>fx_strength = 1\<rparr>), Tick example_tick_env,
      Render (example_render_env (Some (ProcessedTexture 7)))]
   = [Log (Info_is_switching INVALID NVIDIA_DENOISING),
      Log (Info_switched INVALID NVIDIA_DENOISING),
      FxSize, FxSize,
      ProcessFilterBegin True, InputRender 1920 1080, ProcessFilterEnd 1920 1080, FxProcess,
      ProcessFilterBegin True, InputRender 1920 1080, ProcessFilterEnd 1 1, FxProcess,
      DrawSprite (ProcessedTexture 7) 1920 1080]"
  by (simp add: host_session_def denoising_factory_ctor_def denoising_instance_ctor_def
      load_def run_defs)

subsection \<open>Switch tasks\<close>

text \<open>
  Claim C1, as stated, fails. \<open>switch_provider NVIDIA_DENOISING\<close> submits task 0; a
  worker starts it (step 1 clears \<open>m_provider_ready\<close>); \<open>switch_provider INVALID\<close>
  follows, and cannot cancel the started task; then task 0 runs under the lock, its load
  succeeding. The closure of task 0 holds \<open>INVALID\<close>, the identity being vacated, not
  the identity \<open>NVIDIA_DENOISING\<close> it was submitted for. The task loads no NVIDIA
  backend, and it sets \<open>m_provider_ready\<close> although the active provider is by then
  \<open>INVALID\<close>: there is no re-check and nothing is discarded.
\<close>

theorem stale_task_counterexample:
  "\<not> m_provider_ready (inst (exec None
       [Switch NVIDIA_DENOISING, TaskBegin 0, Switch INVALID]
       example_world))
   \<and> running (pool (exec None
       [Switch NVIDIA_DENOISING, TaskBegin 0, Switch INVALID]
       example_world))
       = [\<lparr>task_handle = 0, task_data = \<lparr>provider = INVALID\<rparr>\<rparr>]
   \<and> m_provider_ready (inst (exec None
       [Switch NVIDIA_DENOISING, TaskBegin 0, Switch INVALID,
        TaskRun 0 (LoadCreated \<lparr>fx_strength = 1\<rparr>)]
       example_world))
   \<and> m_provider (inst (exec None
       [Switch NVIDIA_DENOISING, TaskBegin 0, Switch INVALID,
        TaskRun 0 (LoadCreated \<lparr>fx_strength = 1\<rparr>)]
       example_world)) = INVALID
   \<and> m_nvidia_fx (inst (exec None
       [Switch NVIDIA_DENOISING, TaskBegin 0, Switch INVALID,
        TaskRun 0 (LoadCreated \<lparr>fx_strength = 1\<rparr>)]
       example_world)) = None"
  by (simp add: run_defs)

text \<open>
  Claim C1, amended. A call of \<open>switch_provider p\<close> with \<open>p\<close> different from the active
  provider stores \<open>p\<close> as the active provider and submits, as the last queued task, a
  task whose closure holds only the identity being vacated (the active provider before
  the call). The task body, whenever its load does not throw, unloads the backend of the
  identity in its closure, loads the backend of the instance's active provider as it is
  when the task runs, and sets \<open>m_provider_ready\<close>, without comparing any identity.
\<close>

theorem switch_task_loads_current_provider:
  "(p \<noteq> m_provider (inst w) \<longrightarrow>
      m_provider (inst (fst (switch_provider p w))) = p
      \<and> m_provider_task (inst (fst (switch_provider p w))) = Some (next_handle (pool w))
      \<and> last (queued (pool (fst (switch_provider p w))))
          = \<lparr>task_handle = next_handle (pool w),
             task_data = \<lparr>provider = m_provider (inst w)\<rparr>\<rparr>)
   \<and> task_switch_provider spd (LoadCreated fx) s =
       (s\<lparr>m_provider_ready := True,
          m_nvidia_fx := (if m_provider s = NVIDIA_DENOISING then Some fx
                          else if provider spd = NVIDIA_DENOISING then None
                          else m_nvidia_fx s)\<rparr>,
        [Log (Info_switched (provider spd) (m_provider s))], Returned)"
  by (cases "m_provider s"; cases "provider spd")
     (simp_all add: switch_provider_def Let_def threadpool_push_def threadpool_pop_def
        task_switch_provider_def task_switch_provider_mark_def task_switch_provider_locked_def
        nvvfx_denoising_unload_def nvvfx_denoising_load_def split: option.splits)

theorem switch_task_loads_current_provider_witness:
  "m_provider (inst (fst (switch_provider NVIDIA_DENOISING example_world))) = NVIDIA_DENOISING
   \<and> last (queued (pool (fst (switch_provider NVIDIA_DENOISING example_world))))
       = \<lparr>task_handle = 0, task_data = \<lparr>provider = INVALID\<rparr>\<rparr>
   \<and> m_nvidia_fx (fst (task_switch_provider \<lparr>provider = INVALID\<rparr>
        (LoadCreated \<lparr>fx_strength = 1\<rparr>) (inst example_world))) = None"
proof -
  have ne: "NVIDIA_DENOISING \<noteq> m_provider (inst example_world)"
    and nh: "next_handle (pool example_world) = 0"
    and old: "m_provider (inst example_world) = INVALID"
    and fx: "m_nvidia_fx (inst example_world) = None"
    by (simp_all add: example_world_def new_instance_def empty_threadpool_def Let_def)
  from switch_task_loads_current_provider [of NVIDIA_DENOISING example_world
      "\<lparr>provider = INVALID\<rparr>" "\<lparr>fx_strength = 1\<rparr>" "inst example_world"] ne nh old fx
  show ?thesis by simp
qed

text \<open>
  Claim C2. In any sequence of events, after the last call \<open>switch_provider p\<close>, the
  active provider is \<open>p\<close> whatever the events that follow, as long as none of them
  calls \<open>switch_provider\<close> again: task steps in any order and any number (so also once
  all submitted tasks have run), ticks and renders, whole or in pieces, never write the
  active provider.
\<close>

theorem last_switch_wins:
  assumes "\<forall>e\<in>set after. \<not> is_switch_request e"
  shows "m_provider (inst (exec g (before @ Switch p # after) w)) = p"
proof -
  have "exec g (before @ Switch p # after) w
      = exec g after (step g (Switch p) (exec g before w))"
    by (simp add: exec_append)
  then show ?thesis
    using exec_keeps_provider [OF assms]
    by (simp add: step_def step_full_def switch_provider_provider)
qed

theorem last_switch_wins_witness:
  "m_provider (inst (exec None
      ([Switch NVIDIA_DENOISING, TaskBegin 0] @ Switch INVALID
        # [TaskRun 0 (LoadCreated \<lparr>fx_strength = 1\<rparr>), TaskBegin 1,
           TaskRun 1 (LoadCreated \<lparr>fx_strength = 1\<rparr>)]) example_world)) = INVALID"
  by (rule last_switch_wins) simp

subsection \<open>The active provider and the sentinel\<close>

lemma nvidia_available_ideal:
  "nvidia_available f \<Longrightarrow> find_ideal_provider f = NVIDIA_DENOISING"
  by (simp add: find_ideal_provider_def provider_priority_def)

lemma step_never_automatic:
  assumes "nvidia_available f" and "e \<noteq> Switch AUTOMATIC"
    and "m_provider (inst w) \<noteq> AUTOMATIC"
  shows "m_provider (inst (step (Some f) e w)) \<noteq> AUTOMATIC"
proof (cases "is_switch_request e")
  case False
  with assms(3) show ?thesis by (simp add: step_keeps_provider)
next
  case True
  then show ?thesis
  proof (cases e)
    case (Update d)
    with assms(1) show ?thesis
      by (simp add: step_def step_full_def update_provider nvidia_available_ideal)
  next
    case (Switch p)
    with assms(2) show ?thesis
      by (simp add: step_def step_full_def switch_provider_provider)
  qed simp_all
qed

lemma exec_never_automatic:
  assumes "nvidia_available f" and "\<forall>e\<in>set es. e \<noteq> Switch AUTOMATIC"
    and "m_provider (inst w) \<noteq> AUTOMATIC"
  shows "m_provider (inst (exec (Some f) es w)) \<noteq> AUTOMATIC"
  using assms(2,3)
proof (induction es arbitrary: w)
  case Nil
  then show ?case by simp
next
  case (Cons e es)
  from Cons.prems have "m_provider (inst (step (Some f) e w)) \<noteq> AUTOMATIC"
    using step_never_automatic [OF assms(1)] by simp
  with Cons show ?case by simp
qed

lemma ctor_registered_available:
  "is_registered (fst (denoising_factory_ctor probe))
   \<Longrightarrow> nvidia_available (fst (denoising_factory_ctor probe))"
  by (simp add: denoising_factory_ctor_def split: probe_outcome.splits cpp_exception.splits)

lemma ctor_provider_not_automatic:
  "nvidia_available f
   \<Longrightarrow> m_provider (inst (fst (denoising_instance_ctor (Some f) data ui0 dirty0 tp))) \<noteq> AUTOMATIC"
  by (simp add: denoising_instance_ctor_def load_def update_provider nvidia_available_ideal
      new_instance_def Let_def split: option.splits)

text \<open>
  Claim C3. An instance exists only when the factory's constructor registered the filter
  type, and it registers only when a provider is available. For every such factory, in
  every state an instance reaches from its constructor (with or without settings to load)
  by any sequence of updates, task steps, ticks and renders, the active provider is never
  \<open>AUTOMATIC\<close>: \<open>update\<close> resolves \<open>AUTOMATIC\<close> to an available identity before it calls
  \<open>switch_provider\<close>, its only caller. Calls of \<open>switch_provider\<close> on their own may stand
  in the sequence too, with any identity that is not \<open>AUTOMATIC\<close> itself.
\<close>

theorem active_provider_never_automatic:
  assumes "is_registered (fst (denoising_factory_ctor probe))"
    and "\<forall>e\<in>set es. e \<noteq> Switch AUTOMATIC"
  shows "m_provider (inst (exec (Some (fst (denoising_factory_ctor probe))) es
           (fst (denoising_instance_ctor (Some (fst (denoising_factory_ctor probe)))
                   data ui0 dirty0 tp)))) \<noteq> AUTOMATIC"
proof -
  from assms(1) have avail: "nvidia_available (fst (denoising_factory_ctor probe))"
    by (rule ctor_registered_available)
  from exec_never_automatic [OF avail assms(2) ctor_provider_not_automatic [OF avail]]
  show ?thesis .
qed

theorem active_provider_never_automatic_witness:
  "m_provider (inst (exec (Some (fst (denoising_factory_ctor ProbeLoaded)))
       [Update \<lparr>cfg_provider = AUTOMATIC, cfg_strength = 0\<rparr>, TaskBegin 0,
        TaskRun 0 (LoadCreated \<lparr>fx_strength = 1\<rparr>), Switch INVALID,
        Update \<lparr>cfg_provider = AUTOMATIC, cfg_strength = 0\<rparr>]
       (fst (denoising_instance_ctor (Some (fst (denoising_factory_ctor ProbeLoaded)))
               (Some \<lparr>cfg_provider = AUTOMATIC, cfg_strength = 1\<rparr>) INVALID True
               empty_threadpool)))) \<noteq> AUTOMATIC"
  by (rule active_provider_never_automatic) (simp_all add: denoising_factory_ctor_def)

subsection \<open>Render\<close>

text \<open>
  Claim C4, as stated, fails in its last part. \<^verbatim>\<open>_provider_ready\<close> is read once, at the
  entry of \<^verbatim>\<open>video_render\<close> and without the provider lock, and step 1 of a switch task
  clears it without the lock. Here the NVIDIA backend is loaded and ready, the settings
  change to \<open>INVALID\<close> and back (task 1 is cancelled while queued, task 2 is submitted), a
  render passes its entry checks, a worker starts task 2, and the render's first block then
  calls the backend's process while \<open>m_provider_ready\<close> is false.
\<close>

theorem process_called_after_ready_cleared_counterexample:
  "rendering (exec (Some \<lparr>nvidia_available = True, is_registered = True\<rparr>)
       [Update \<lparr>cfg_provider = AUTOMATIC, cfg_strength = 1\<rparr>, TaskBegin 0,
        TaskRun 0 (LoadCreated \<lparr>fx_strength = 1\<rparr>), Tick example_tick_env,
        Update \<lparr>cfg_provider = INVALID, cfg_strength = 1\<rparr>,
        Update \<lparr>cfg_provider = AUTOMATIC, cfg_strength = 1\<rparr>,
        RenderGate (example_render_env (Some (ProcessedTexture 7))), TaskBegin 2]
       example_world) = PastGate (example_render_env (Some (ProcessedTexture 7)))
   \<and> \<not> m_provider_ready (inst (exec (Some \<lparr>nvidia_available = True, is_registered = True\<rparr>)
       [Update \<lparr>cfg_provider = AUTOMATIC, cfg_strength = 1\<rparr>, TaskBegin 0,
        TaskRun 0 (LoadCreated \<lparr>fx_strength = 1\<rparr>), Tick example_tick_env,
        Update \<lparr>cfg_provider = INVALID, cfg_strength = 1\<rparr>,
        Update \<lparr>cfg_provider = AUTOMATIC, cfg_strength = 1\<rparr>,
        RenderGate (example_render_env (Some (ProcessedTexture 7))), TaskBegin 2]
       example_world))
   \<and> FxProcess \<in> set (snd (step_full (Some \<lparr>nvidia_available = True, is_registered = True\<rparr>)
       RenderFirst
       (exec (Some \<lparr>nvidia_available = True, is_registered = True\<rparr>)
       [Update \<lparr>cfg_provider = AUTOMATIC, cfg_strength = 1\<rparr>, TaskBegin 0,
        TaskRun 0 (LoadCreated \<lparr>fx_strength = 1\<rparr>), Tick example_tick_env,
        Update \<lparr>cfg_provider = INVALID, cfg_strength = 1\<rparr>,
        Update \<lparr>cfg_provider = AUTOMATIC, cfg_strength = 1\<rparr>,
        RenderGate (example_render_env (Some (ProcessedTexture 7))), TaskBegin 2]
       example_world)))"
  by (simp add: run_defs)

text \<open>
  Claim C4, amended. When, at the entry checks of a render, \<open>m_provider_ready\<close> is false,
  or there is no target (neither the filter's target nor the parent the code falls back
  to), or the width or the height of the target is zero, \<open>video_render\<close> leaves the state
  as it is, its only external call is the skip, and it returns: the backend is asked
  neither for its size nor to process. Taken in pieces, the entry checks skip and leave
  the render thread outside the render, where none of the later blocks does anything. So
  process is never called by a render whose entry checks found \<open>m_provider_ready\<close> false.
\<close>

theorem video_render_skips_without_provider_calls:
  "\<not> m_provider_ready s \<or> \<not> (r_target env \<or> r_parent env) \<or> r_width env = 0 \<or> r_height env = 0
   \<Longrightarrow> video_render env s = (s, [SkipVideoFilter], Returned)
       \<and> FxProcess \<notin> set (fst (snd (video_render env s)))
       \<and> FxSize \<notin> set (fst (snd (video_render env s)))
       \<and> (rendering w = Idle \<and> inst w = s \<longrightarrow>
            step_full g (RenderGate env) w = (w, [SkipVideoFilter])
            \<and> step_full g RenderFirst w = (w, [])
            \<and> step_full g RenderSecond w = (w, [])
            \<and> step_full g RenderDraw w = (w, []))"
  using video_render_gate [of s env] step_full_idle_pieces [of w g]
  by (auto simp: step_full_def)

theorem video_render_skips_without_provider_calls_witness:
  "video_render (example_render_env (Some (ProcessedTexture 7))) (inst example_world)
     = (inst example_world, [SkipVideoFilter], Returned)
   \<and> step_full None (RenderGate (example_render_env (Some (ProcessedTexture 7)))) example_world
     = (example_world, [SkipVideoFilter])
   \<and> video_render ((example_render_env (Some (ProcessedTexture 7)))\<lparr>r_width := 0\<rparr>)
        ((inst example_world)\<lparr>m_provider_ready := True, m_provider := NVIDIA_DENOISING,
            m_nvidia_fx := Some \<lparr>fx_strength = 1\<rparr>\<rparr>)
     = ((inst example_world)\<lparr>m_provider_ready := True, m_provider := NVIDIA_DENOISING,
            m_nvidia_fx := Some \<lparr>fx_strength = 1\<rparr>\<rparr>, [SkipVideoFilter], Returned)"
proof -
  have a: "\<not> m_provider_ready (inst example_world)" and i: "rendering example_world = Idle"
    by (simp_all add: example_world_def new_instance_def Let_def)
  have b: "r_width ((example_render_env (Some (ProcessedTexture 7)))\<lparr>r_width := 0\<rparr>) = 0"
    by simp
  show ?thesis
    using video_render_skips_without_provider_calls
            [of "inst example_world" "example_render_env (Some (ProcessedTexture 7))"
                example_world None]
          video_render_skips_without_provider_calls
            [of "(inst example_world)\<lparr>m_provider_ready := True, m_provider := NVIDIA_DENOISING,
                   m_nvidia_fx := Some \<lparr>fx_strength = 1\<rparr>\<rparr>"
                "(example_render_env (Some (ProcessedTexture 7)))\<lparr>r_width := 0\<rparr>"
                example_world None]
          a b i
    by blast
qed



subsection \<open>No provider available\<close>



subsection \<open>Failures in the switch task\<close>

text \<open>
  When the load throws an exception derived from \<^verbatim>\<open>std::exception\<close>, a task that runs
  its two parts with no step of another task in between logs it, leaves
  \<open>m_provider_ready\<close> false and the active provider as it was, and returns.
\<close>

lemma task_switch_provider_std_exception:
  "m_provider s = NVIDIA_DENOISING \<Longrightarrow>
   task_switch_provider spd (LoadThrows (StdException what)) s =
     (s\<lparr>m_provider_ready := False,
        m_nvidia_fx := (if provider spd = NVIDIA_DENOISING then None else m_nvidia_fx s)\<rparr>,
      [Log (Error_failed_switching what)], Returned)"
  by (cases "provider spd")
     (simp_all add: task_switch_provider_def task_switch_provider_mark_def
        task_switch_provider_locked_def nvvfx_denoising_unload_def nvvfx_denoising_load_def)

text \<open>
  Claim C7 at the input where it fails. The task body's only handler is
  \<^verbatim>\<open>catch (std::exception const&)\<close>, while the factory's constructor, \<open>initialize\<close> and
  the render's second block also have \<^verbatim>\<open>catch (...)\<close>. When the active provider is
  \<open>NVIDIA_DENOISING\<close> and the load throws something not derived from
  \<^verbatim>\<open>std::exception\<close>, nothing is logged and the exception leaves the task body.
\<close>

theorem unknown_exception_escapes_task:
  "task_switch_provider \<lparr>provider = INVALID\<rparr> (LoadThrows UnknownException)
       ((new_instance INVALID True)\<lparr>m_provider := NVIDIA_DENOISING\<rparr>)
     = ((new_instance INVALID True)\<lparr>m_provider := NVIDIA_DENOISING\<rparr>, [],
        Escaped UnknownException)"
  by (simp add: run_defs)

subsection \<open>Process without a backend\<close>

text \<open>
  Claim C8, as stated, fails: on an instance with no backend loaded and no output
  surface, \<open>nvvfx_denoising_process\<close> returns normally, but with the input render
  target's texture as the output, not with no output.
\<close>

theorem unloaded_process_counterexample:
  "m_nvidia_fx ((new_instance INVALID True)\<lparr>m_output := None\<rparr>) = None
   \<and> m_output (fst (nvvfx_denoising_process (ProcessReturns None)
        ((new_instance INVALID True)\<lparr>m_output := None\<rparr>))) = Some RenderTargetTexture
   \<and> snd (snd (nvvfx_denoising_process (ProcessReturns None)
        ((new_instance INVALID True)\<lparr>m_output := None\<rparr>))) = Returned"
  by (simp add: run_defs)

text \<open>
  Claim C8, amended. Whenever the backend handle is absent, \<open>nvvfx_denoising_process\<close>
  makes no backend call and raises nothing; it sets the output to the texture of the
  input render target, which is not null, so the render's null check passes and the
  captured frame is drawn unprocessed.
\<close>

theorem unloaded_process_passes_input:
  "m_nvidia_fx s = None \<Longrightarrow>
   nvvfx_denoising_process po s = (s\<lparr>m_output := Some (get_texture (m_input s))\<rparr>, [], Returned)
   \<and> m_output (fst (nvvfx_denoising_process po s)) \<noteq> None"
  by (simp add: nvvfx_denoising_process_def)

theorem unloaded_process_passes_input_witness:
  "nvvfx_denoising_process (ProcessReturns None) ((inst example_world)\<lparr>m_output := None\<rparr>)
     = ((inst example_world)\<lparr>m_output := Some RenderTargetTexture\<rparr>, [], Returned)"
proof -
  have "m_nvidia_fx ((inst example_world)\<lparr>m_output := None\<rparr>) = None"
    by (simp add: example_world_def new_instance_def Let_def)
  from unloaded_process_passes_input [OF this, of "ProcessReturns None"] show ?thesis
    by (simp add: get_texture_def)
qed

end
